theory Spec2Isabelle
  imports Main "HOL-Library.Word"
begin

section \<open>Python values and exceptions\<close>

text \<open>
  The module \<^verbatim>\<open>rhn_rpm.py\<close> reads RPM package files and wraps decoded rpm headers.
  Its functions raise Python exceptions; here every function returns a sum, with the
  exception that escapes on the left.
\<close>

type_synonym byte = "8 word"

datatype exn =
    AttributeError
  | TypeError
  | KeyError
  | IndexError
  | ValueError
  | OSError
  | StructError
  | UnicodeDecodeError
  | UnicodeEncodeError

section \<open>The seekable byte source\<close>

text \<open>
  A binary file object: its bytes and the read cursor. The cursor may stand beyond the
  last byte (seeking past the end is allowed; reading there returns no bytes).
\<close>

record package_file =
  contents :: "byte list"
  pos :: nat

text \<open>
  \<^verbatim>\<open>f.seek(offset, whence)\<close>: whence 0 is absolute, 1 relative to the cursor, 2 relative to the
  end. A negative target is refused and leaves the cursor where it was.
\<close>

definition seek :: "int \<Rightarrow> nat \<Rightarrow> package_file \<Rightarrow> (exn + unit) \<times> package_file" where
  "seek offset whence f =
     (if whence > 2 then (Inl ValueError, f)
      else
        (let target = (if whence = 0 then offset
                       else if whence = 1 then int (pos f) + offset
                       else int (length (contents f)) + offset)
         in if target < 0 then (Inl OSError, f)
            else (Inr (), f\<lparr>pos := nat target\<rparr>)))"

text \<open>
  \<^verbatim>\<open>f.read(n)\<close>: the next \<open>n\<close> bytes, or as many as are left; the cursor moves past the bytes
  returned.
\<close>

definition read :: "nat \<Rightarrow> package_file \<Rightarrow> byte list \<times> package_file" where
  "read n f =
     (let bs = take n (drop (pos f) (contents f))
      in (bs, f\<lparr>pos := pos f + length bs\<rparr>))"

text \<open>
  \<^verbatim>\<open>struct.unpack('>I', bs)\<close>: a big-endian unsigned 32-bit integer from exactly four bytes;
  any other length raises \<^verbatim>\<open>struct.error\<close>.
\<close>

definition unpack_be_u32 :: "byte list \<Rightarrow> exn + int" where
  "unpack_be_u32 bs =
     (if length bs = 4 then Inr (foldl (\<lambda>acc b. acc * 256 + uint b) 0 bs)
      else Inl StructError)"

section \<open>Size of a header structure\<close>

text \<open>
  \<^verbatim>\<open>get_header_struct_size(package_file)\<close>. The result is paired with the file object as the
  call leaves it, also when the call raises.
\<close>

definition get_header_struct_size :: "package_file \<Rightarrow> (exn + int) \<times> package_file" where
  "get_header_struct_size package_file =
     (case seek 8 1 package_file of
        (Inl e, f1) \<Rightarrow> (Inl e, f1)
      | (Inr _, f1) \<Rightarrow>
          (let (header_index, f2) = read 4 f1 in
           case unpack_be_u32 header_index of
             Inl e \<Rightarrow> (Inl e, f2)
           | Inr header_index_value \<Rightarrow>
               (let (header_store, f3) = read 4 f2 in
                case unpack_be_u32 header_store of
                  Inl e \<Rightarrow> (Inl e, f3)
                | Inr header_store_value \<Rightarrow>
                    (let header_size = 8 + 4 + 4 + header_index_value * 16 + header_store_value;
                         round_out = header_size mod 8;
                         header_size = (if round_out \<noteq> 0 then header_size + (8 - round_out)
                                        else header_size)
                     in (Inr header_size, f3)))))"

section \<open>Byte range of the main header\<close>

text \<open>\<^verbatim>\<open>get_header_byte_range(package_file)\<close>.\<close>

definition get_header_byte_range :: "package_file \<Rightarrow> (exn + int \<times> int) \<times> package_file" where
  "get_header_byte_range package_file =
     (let lead_size = 96 in
      case seek lead_size 0 package_file of
        (Inl e, f1) \<Rightarrow> (Inl e, f1)
      | (Inr _, f1) \<Rightarrow>
          (case get_header_struct_size f1 of
             (Inl e, f2) \<Rightarrow> (Inl e, f2)
           | (Inr sig_size, f2) \<Rightarrow>
               (let header_start = lead_size + sig_size in
                case seek header_start 0 f2 of
                  (Inl e, f3) \<Rightarrow> (Inl e, f3)
                | (Inr _, f3) \<Rightarrow>
                    (case get_header_struct_size f3 of
                       (Inl e, f4) \<Rightarrow> (Inl e, f4)
                     | (Inr header_size, f4) \<Rightarrow>
                         (let header_end = header_start + header_size
                          in (Inr (header_start, header_end), f4))))))"

subsection \<open>The layout in the words of the specification\<close>

text \<open>
  The 4-byte big-endian unsigned integer that starts at index \<open>i\<close> of a byte sequence,
  the two fields of a preamble that starts at \<open>p\<close>, and the size the specification
  derives from them before alignment.
\<close>

definition be_u32_at :: "byte list \<Rightarrow> nat \<Rightarrow> int" where
  "be_u32_at bs i =
     uint (bs ! i) * 2 ^ 24 + uint (bs ! (i + 1)) * 2 ^ 16
       + uint (bs ! (i + 2)) * 2 ^ 8 + uint (bs ! (i + 3))"

definition index_count :: "package_file \<Rightarrow> nat \<Rightarrow> int" where
  "index_count f p = be_u32_at (contents f) (p + 8)"

definition store_bytes :: "package_file \<Rightarrow> nat \<Rightarrow> int" where
  "store_bytes f p = be_u32_at (contents f) (p + 12)"

definition raw_size :: "package_file \<Rightarrow> nat \<Rightarrow> int" where
  "raw_size f p = 16 + 16 * index_count f p + store_bytes f p"

text \<open>Rounding up to the next multiple of 8; a multiple of 8 stays.\<close>

definition round_up_8 :: "int \<Rightarrow> int" where
  "round_up_8 n = ((n + 7) div 8) * 8"

text \<open>\<open>compute_size(source, position)\<close>: the size computation started with the cursor at \<open>position\<close>.\<close>

definition compute_size :: "package_file \<Rightarrow> nat \<Rightarrow> exn + int" where
  "compute_size source position = fst (get_header_struct_size (source\<lparr>pos := position\<rparr>))"

section \<open>Python values of decoded headers and version tuples\<close>

text \<open>
  An rpm header object returns \<^verbatim>\<open>None\<close> for a tag that is absent, an \<^verbatim>\<open>int\<close> for a tag of
  integer type (the file digest algorithm) and a byte string for a binary tag (the four
  signature tags). \<open>PyStr\<close> is a text string, a sequence of code points: the result of
  \<^verbatim>\<open>.decode('utf-8')\<close>, and a possible field of a version tuple.
\<close>

datatype pyval = PyNone | PyInt int | PyBytes "byte list" | PyStr "nat list"

text \<open>Truth value of an object in a condition.\<close>

fun truthy :: "pyval \<Rightarrow> bool" where
  "truthy PyNone = False"
| "truthy (PyInt n) = (n \<noteq> 0)"
| "truthy (PyBytes bs) = (bs \<noteq> [])"
| "truthy (PyStr s) = (s \<noteq> [])"

text \<open>\<^verbatim>\<open>len(x)\<close>: \<^verbatim>\<open>None\<close> and integers have no length.\<close>

fun py_len :: "pyval \<Rightarrow> exn + nat" where
  "py_len (PyBytes bs) = Inr (length bs)"
| "py_len (PyStr s) = Inr (length s)"
| "py_len PyNone = Inl TypeError"
| "py_len (PyInt n) = Inl TypeError"

text \<open>
  The slice \<^verbatim>\<open>x[a:b]\<close> for literal bounds \<open>0 \<le> a \<le> b\<close>: the elements with index in
  \<open>[a, b)\<close> that exist; a slice never raises on a sequence.
\<close>

fun py_slice :: "nat \<Rightarrow> nat \<Rightarrow> pyval \<Rightarrow> exn + pyval" where
  "py_slice a b (PyBytes bs) = Inr (PyBytes (take (b - a) (drop a bs)))"
| "py_slice a b (PyStr s) = Inr (PyStr (take (b - a) (drop a s)))"
| "py_slice a b PyNone = Inl TypeError"
| "py_slice a b (PyInt n) = Inl TypeError"

text \<open>
  \<^verbatim>\<open>struct.unpack("%dB" % n, x)\<close>: \<open>n\<close> unsigned bytes as a tuple of integers; the argument
  has to be a byte string of exactly \<open>n\<close> bytes.
\<close>

fun struct_unpack_B :: "nat \<Rightarrow> pyval \<Rightarrow> exn + int list" where
  "struct_unpack_B n (PyBytes bs) =
     (if length bs = n then Inr (map uint bs) else Inl StructError)"
| "struct_unpack_B n (PyStr s) = Inl TypeError"
| "struct_unpack_B n PyNone = Inl TypeError"
| "struct_unpack_B n (PyInt i) = Inl TypeError"

text \<open>
  The format \<^verbatim>\<open>%02x\<close> of one integer: lowercase hexadecimal digits, with a minus sign for
  a negative number, padded on the left with zeros to two characters.
\<close>

definition hex_digit :: "nat \<Rightarrow> char" where
  "hex_digit d = ''0123456789abcdef'' ! d"

fun to_hex :: "nat \<Rightarrow> string" where
  "to_hex n = (if n < 16 then [hex_digit n] else to_hex (n div 16) @ [hex_digit (n mod 16)])"

declare to_hex.simps [simp del]

definition format_02x :: "int \<Rightarrow> string" where
  "format_02x i =
     (let s = (if i < 0 then CHR ''-'' # to_hex (nat (- i)) else to_hex (nat i))
      in replicate (2 - length s) CHR ''0'' @ s)"

text \<open>
  \<^verbatim>\<open>("%02x" * n) % t\<close>: the tuple has to supply exactly one integer for each of the \<open>n\<close>
  conversions.
\<close>

definition format_02x_times :: "nat \<Rightarrow> int list \<Rightarrow> exn + string" where
  "format_02x_times n t =
     (if length t = n then Inr (concat (map format_02x t)) else Inl TypeError)"

section \<open>The header wrapper\<close>

datatype tag =
    RPMTAG_FILEDIGESTALGO
  | RPMTAG_DSAHEADER
  | RPMTAG_RSAHEADER
  | RPMTAG_SIGGPG
  | RPMTAG_SIGPGP

text \<open>
  The decoded header \<^verbatim>\<open>hdr\<close>: \<^verbatim>\<open>hdr[tag]\<close> by tag constant or by tag name
  (\<^verbatim>\<open>"dsaheader"\<close>, \<^verbatim>\<open>"siggpg"\<close>, \<^verbatim>\<open>"sigpgp"\<close> name the tags \<open>RPMTAG_DSAHEADER\<close>,
  \<open>RPMTAG_SIGGPG\<close>, \<open>RPMTAG_SIGPGP\<close>).
\<close>

type_synonym header = "tag \<Rightarrow> pyval"

text \<open>
  What the module asks of the imported \<^verbatim>\<open>rpm\<close> module at run time: whether it has the
  attribute \<^verbatim>\<open>RPMTAG_DSAHEADER\<close> (\<^verbatim>\<open>hasattr(rpm, "RPMTAG_DSAHEADER")\<close>).
\<close>

record rpm_module =
  has_RPMTAG_DSAHEADER :: bool

text \<open>One entry of \<^verbatim>\<open>self.signatures\<close>.\<close>

record sig_entry =
  signature_type :: string
  key_id :: string
  signature :: pyval

record RPM_Header =
  hdr :: header
  is_source :: pyval
  packaging :: string
  signatures :: "sig_entry list"

subsection \<open>Signature extraction\<close>

text \<open>
  The body of the loop of \<^verbatim>\<open>_extract_signatures\<close> for one pair \<^verbatim>\<open>ht, sig_type\<close>; it returns
  the list \<^verbatim>\<open>self.signatures\<close> after the iteration (\<^verbatim>\<open>continue\<close> leaves it as it is).
  The source's variable \<^verbatim>\<open>key_id\<close> holds the slice first (\<open>key_id_slice\<close>) and the
  formatted text afterwards (\<open>key_id_hex\<close>).
\<close>

definition extract_signature :: "header \<Rightarrow> tag \<Rightarrow> string \<Rightarrow> sig_entry list \<Rightarrow> exn + sig_entry list" where
  "extract_signature h ht sig_type sigs =
     (let ret = h ht in
      if \<not> truthy ret then Inr sigs
      else
        case py_len ret of
          Inl e \<Rightarrow> Inl e
        | Inr ret_len \<Rightarrow>
            if ret_len < 17 then Inr sigs
            else
             (case (if ret_len \<le> 65 then py_slice 9 17 ret
                    else if ret_len \<le> 72 then py_slice 18 26 ret
                    else if ret_len \<le> 536 then py_slice 10 18 ret
                    else py_slice 19 27 ret) of
                Inl e \<Rightarrow> Inl e
              | Inr key_id_slice \<Rightarrow>
                  (case py_len key_id_slice of
                     Inl e \<Rightarrow> Inl e
                   | Inr key_id_len \<Rightarrow>
                       (case struct_unpack_B key_id_len key_id_slice of
                          Inl e \<Rightarrow> Inl e
                        | Inr t \<Rightarrow>
                            (case format_02x_times key_id_len t of
                               Inl e \<Rightarrow> Inl e
                             | Inr key_id_hex \<Rightarrow>
                                 Inr (sigs @ [\<lparr>signature_type = sig_type, key_id = key_id_hex,
                                                signature = ret\<rparr>]))))))"

text \<open>The \<^verbatim>\<open>for\<close> loop over \<^verbatim>\<open>header_tags\<close>; an exception ends it.\<close>

fun extract_loop :: "header \<Rightarrow> (tag \<times> string) list \<Rightarrow> sig_entry list \<Rightarrow> exn + sig_entry list" where
  "extract_loop h [] sigs = Inr sigs"
| "extract_loop h ((ht, sig_type) # rest) sigs =
     (case extract_signature h ht sig_type sigs of
        Inl e \<Rightarrow> Inl e
      | Inr sigs' \<Rightarrow> extract_loop h rest sigs')"

text \<open>
  \<^verbatim>\<open>_extract_signatures(self)\<close>. Building \<^verbatim>\<open>header_tags\<close> reads \<^verbatim>\<open>rpm.RPMTAG_DSAHEADER\<close> first,
  which raises when the \<^verbatim>\<open>rpm\<close> module has no such attribute.
\<close>

definition header_tags :: "(tag \<times> string) list" where
  "header_tags =
     [(RPMTAG_DSAHEADER, ''dsa''),
      (RPMTAG_RSAHEADER, ''rsa''),
      (RPMTAG_SIGGPG, ''gpg''),
      (RPMTAG_SIGPGP, ''pgp'')]"

definition extract_signatures :: "rpm_module \<Rightarrow> RPM_Header \<Rightarrow> exn + RPM_Header" where
  "extract_signatures rpm self =
     (if \<not> has_RPMTAG_DSAHEADER rpm then Inl AttributeError
      else
        case extract_loop (hdr self) header_tags (signatures self) of
          Inl e \<Rightarrow> Inl e
        | Inr sigs \<Rightarrow> Inr (self\<lparr>signatures := sigs\<rparr>))"

text \<open>\<^verbatim>\<open>RPM_Header.__init__(self, hdr, is_source)\<close>: the constructor of the wrapper.\<close>

definition RPM_Header_init :: "rpm_module \<Rightarrow> header \<Rightarrow> pyval \<Rightarrow> exn + RPM_Header" where
  "RPM_Header_init rpm h is_src =
     extract_signatures rpm
       \<lparr>hdr = h, is_source = is_src, packaging = ''rpm'', signatures = []\<rparr>"

subsection \<open>Signed or not\<close>

text \<open>\<^verbatim>\<open>is_signed(self)\<close> returns the integer 1 or 0.\<close>

definition is_signed :: "rpm_module \<Rightarrow> RPM_Header \<Rightarrow> int" where
  "is_signed rpm self =
     (let dsaheader = (if has_RPMTAG_DSAHEADER rpm then hdr self RPMTAG_DSAHEADER else PyInt 0)
      in if truthy (hdr self RPMTAG_SIGGPG) \<or> truthy (hdr self RPMTAG_SIGPGP) \<or> truthy dsaheader
         then 1 else 0)"

subsection \<open>Checksum type\<close>

text \<open>The dictionary \<^verbatim>\<open>PGPHASHALGO\<close>; its keys are integers.\<close>

definition PGPHASHALGO :: "(pyval \<times> string) list" where
  "PGPHASHALGO =
     [(PyInt 1, ''md5''),
      (PyInt 2, ''sha1''),
      (PyInt 3, ''ripemd160''),
      (PyInt 5, ''md2''),
      (PyInt 6, ''tiger192''),
      (PyInt 7, ''haval-5-160''),
      (PyInt 8, ''sha256''),
      (PyInt 9, ''sha384''),
      (PyInt 10, ''sha512'')]"

text \<open>
  \<^verbatim>\<open>k in d\<close> and \<^verbatim>\<open>d[k]\<close>: a key is found when it equals a key of the dictionary, and an
  integer equals neither a text string nor a byte string.
\<close>

definition dict_contains :: "(pyval \<times> 'v) list \<Rightarrow> pyval \<Rightarrow> bool" where
  "dict_contains d k = (map_of d k \<noteq> None)"

definition dict_getitem :: "(pyval \<times> 'v) list \<Rightarrow> pyval \<Rightarrow> exn + 'v" where
  "dict_getitem d k = (case map_of d k of None \<Rightarrow> Inl KeyError | Some v \<Rightarrow> Inr v)"

text \<open>
  The method call \<^verbatim>\<open>x.decode('utf-8')\<close>. Only a byte string has the method; looking it up on
  an integer, on \<^verbatim>\<open>None\<close> or on a text string raises \<^verbatim>\<open>AttributeError\<close>. The UTF-8 decoder
  itself belongs to the Python runtime and is a parameter: it returns the code points or
  raises.
\<close>

fun py_decode :: "(byte list \<Rightarrow> exn + nat list) \<Rightarrow> pyval \<Rightarrow> exn + pyval" where
  "py_decode utf8 (PyBytes bs) = (case utf8 bs of Inl e \<Rightarrow> Inl e | Inr s \<Rightarrow> Inr (PyStr s))"
| "py_decode utf8 (PyInt n) = Inl AttributeError"
| "py_decode utf8 PyNone = Inl AttributeError"
| "py_decode utf8 (PyStr s) = Inl AttributeError"

text \<open>
  \<^verbatim>\<open>checksum_type(self)\<close>. The condition is an \<^verbatim>\<open>and\<close>: its second operand is evaluated only
  when the tag's value is true.
\<close>

definition checksum_type :: "(byte list \<Rightarrow> exn + nat list) \<Rightarrow> RPM_Header \<Rightarrow> exn + string" where
  "checksum_type utf8 self =
     (if \<not> truthy (hdr self RPMTAG_FILEDIGESTALGO) then Inr ''md5''
      else
        case py_decode utf8 (hdr self RPMTAG_FILEDIGESTALGO) of
          Inl e \<Rightarrow> Inl e
        | Inr decoded \<Rightarrow>
            if dict_contains PGPHASHALGO decoded
            then dict_getitem PGPHASHALGO (hdr self RPMTAG_FILEDIGESTALGO)
            else Inr ''md5'')"

section \<open>Comparing name, version, release and epoch\<close>

text \<open>
  The module runs under Python 2 and under Python 3. On the values above the functions of
  the previous sections behave the same under both; \<^verbatim>\<open>nvre_compare\<close> does not, because the
  builtin \<^verbatim>\<open>map\<close> returns a list under Python 2 and an iterator under Python 3.
\<close>

datatype pyver = Python2 | Python3

text \<open>The tuple \<^verbatim>\<open>(name, version, release, epoch)\<close>: \<^verbatim>\<open>p[0]\<close>, \<^verbatim>\<open>p[1]\<close>, \<^verbatim>\<open>p[2]\<close>, \<^verbatim>\<open>p[3]\<close>.\<close>

type_synonym nvre = "string \<times> pyval \<times> pyval \<times> pyval"

text \<open>
  Python 2's \<^verbatim>\<open>str(x)\<close>, a byte string: the decimal digits of an integer, \<^verbatim>\<open>'None'\<close> for
  \<^verbatim>\<open>None\<close>, a byte string itself, and the ASCII encoding of a text string, which raises when a
  code point is not ASCII.
\<close>

definition ascii :: "string \<Rightarrow> byte list" where
  "ascii s = map of_char s"

fun decimal :: "nat \<Rightarrow> string" where
  "decimal n =
     (if n < 10 then [''0123456789'' ! n] else decimal (n div 10) @ [''0123456789'' ! (n mod 10)])"

declare decimal.simps [simp del]

fun py2_str :: "pyval \<Rightarrow> exn + byte list" where
  "py2_str PyNone = Inr (ascii ''None'')"
| "py2_str (PyInt n) =
     Inr (ascii (if n < 0 then CHR ''-'' # decimal (nat (- n)) else decimal (nat n)))"
| "py2_str (PyBytes bs) = Inr bs"
| "py2_str (PyStr s) =
     (if list_all (\<lambda>c. c < 128) s then Inr (map of_nat s) else Inl UnicodeEncodeError)"

text \<open>
  The inner function \<^verbatim>\<open>build_evr(p)\<close>. Under Python 2, \<^verbatim>\<open>map(str, evr)\<close> is the list of the
  three strings, epoch first, and an empty epoch becomes \<^verbatim>\<open>None\<close>. Under Python 3 it is a
  lazy iterator: \<^verbatim>\<open>str\<close> is not called, and the subscript \<^verbatim>\<open>evr[0]\<close> of the next line raises
  \<^verbatim>\<open>TypeError\<close>.
\<close>

definition build_evr :: "pyver \<Rightarrow> nvre \<Rightarrow> exn + byte list option list" where
  "build_evr ver p =
     (case p of (name, version, release, epoch) \<Rightarrow>
        (case ver of
           Python3 \<Rightarrow> Inl TypeError
         | Python2 \<Rightarrow>
             (case py2_str epoch of
                Inl e \<Rightarrow> Inl e
              | Inr e \<Rightarrow>
                  (case py2_str version of
                     Inl e \<Rightarrow> Inl e
                   | Inr v \<Rightarrow>
                       (case py2_str release of
                          Inl e \<Rightarrow> Inl e
                        | Inr r \<Rightarrow> Inr [if e = [] then None else Some e, Some v, Some r])))))"

text \<open>
  \<^verbatim>\<open>nvre_compare(t1, t2)\<close>. \<^verbatim>\<open>rpm.labelCompare\<close> belongs to the rpm bindings, not to this
  module, and is a parameter.
\<close>

definition nvre_compare ::
  "pyver \<Rightarrow> (byte list option list \<Rightarrow> byte list option list \<Rightarrow> exn + int) \<Rightarrow> nvre \<Rightarrow> nvre \<Rightarrow> exn + int" where
  "nvre_compare ver labelCompare t1 t2 =
     (if fst t1 \<noteq> fst t2 then Inl ValueError
      else
        case build_evr ver t1 of
          Inl e \<Rightarrow> Inl e
        | Inr evr1 \<Rightarrow>
            (case build_evr ver t2 of
               Inl e \<Rightarrow> Inl e
             | Inr evr2 \<Rightarrow> labelCompare evr1 evr2))"

section \<open>Signature extraction in the words of the specification\<close>

text \<open>
  The key-id slice by the total length \<open>L\<close> of the raw value, first match first; the
  rendering of bytes as two lowercase hexadecimal digits each; the record of one signature
  kind, none for a value that is absent, empty or shorter than 17 bytes; and the records in the
  order dsa, rsa, gpg, pgp.
\<close>

definition spec_key_id_range :: "nat \<Rightarrow> nat \<times> nat" where
  "spec_key_id_range L =
     (if L \<le> 65 then (9, 17)
      else if L \<le> 72 then (18, 26)
      else if L \<le> 536 then (10, 18)
      else (19, 27))"

definition spec_hex :: "byte list \<Rightarrow> string" where
  "spec_hex bs = concat (map (\<lambda>b. [hex_digit (unat b div 16), hex_digit (unat b mod 16)]) bs)"

definition spec_record :: "string \<Rightarrow> pyval \<Rightarrow> sig_entry list" where
  "spec_record kind v =
     (case v of
        PyBytes bs \<Rightarrow>
          if 17 \<le> length bs
          then [\<lparr>signature_type = kind,
                 key_id = spec_hex (map (\<lambda>i. bs ! i)
                            [fst (spec_key_id_range (length bs)) ..< snd (spec_key_id_range (length bs))]),
                 signature = v\<rparr>]
          else []
      | _ \<Rightarrow> [])"

definition spec_signatures :: "header \<Rightarrow> sig_entry list" where
  "spec_signatures h =
     spec_record ''dsa'' (h RPMTAG_DSAHEADER) @ spec_record ''rsa'' (h RPMTAG_RSAHEADER)
       @ spec_record ''gpg'' (h RPMTAG_SIGGPG) @ spec_record ''pgp'' (h RPMTAG_SIGPGP)"

text \<open>A raw signature value: a byte string, or \<^verbatim>\<open>None\<close> for a tag that is absent.\<close>

fun raw_value :: "pyval \<Rightarrow> bool" where
  "raw_value PyNone = True"
| "raw_value (PyBytes bs) = True"
| "raw_value (PyInt n) = False"
| "raw_value (PyStr s) = False"

text \<open>A raw value that is present and not empty.\<close>

fun present_nonempty :: "pyval \<Rightarrow> bool" where
  "present_nonempty (PyBytes bs) = (bs \<noteq> [])"
| "present_nonempty PyNone = False"
| "present_nonempty (PyInt n) = False"
| "present_nonempty (PyStr s) = False"

section \<open>Facts about the byte source\<close>

lemma take_4_drop:
  "p + 4 \<le> length xs \<Longrightarrow> take 4 (drop p xs) = [xs ! p, xs ! (p + 1), xs ! (p + 2), xs ! (p + 3)]"
  by (rule nth_equalityI) (auto simp: nth_Cons eval_nat_numeral split: nat.splits)

lemma read_4_full:
  "pos f + 4 \<le> length (contents f) \<Longrightarrow>
   read 4 f = ([contents f ! pos f, contents f ! (pos f + 1), contents f ! (pos f + 2),
                contents f ! (pos f + 3)], f\<lparr>pos := pos f + 4\<rparr>)"
  by (simp add: read_def Let_def take_4_drop)

lemma read_4_short:
  "\<not> pos f + 4 \<le> length (contents f) \<Longrightarrow> length (fst (read 4 f)) \<noteq> 4"
  by (simp add: read_def Let_def)

lemma read_contents: "contents (snd (read n f)) = contents f"
  by (simp add: read_def Let_def)

lemma unpack_be_u32_four:
  "unpack_be_u32 [a, b, c, d] = Inr (uint a * 2 ^ 24 + uint b * 2 ^ 16 + uint c * 2 ^ 8 + uint d)"
  by (simp add: unpack_be_u32_def)

lemma read_unpack_be_u32:
  assumes "pos f + 4 \<le> length (contents f)"
  shows "unpack_be_u32 (fst (read 4 f)) = Inr (be_u32_at (contents f) (pos f))"
    and "snd (read 4 f) = f\<lparr>pos := pos f + 4\<rparr>"
  using assms by (simp_all add: read_4_full unpack_be_u32_four be_u32_at_def)

lemma seek_cur_8: "seek 8 1 f = (Inr (), f\<lparr>pos := pos f + 8\<rparr>)"
  by (simp add: seek_def Let_def nat_add_distrib)

lemma seek_set_nonneg: "0 \<le> off \<Longrightarrow> seek off 0 f = (Inr (), f\<lparr>pos := nat off\<rparr>)"
  by (simp add: seek_def Let_def)

lemma be_u32_at_bounds: "0 \<le> be_u32_at bs i \<and> be_u32_at bs i \<le> 4294967295"
proof -
  have b: "0 \<le> uint w \<and> uint w \<le> 255" for w :: byte
  proof -
    have "uint w < 2 ^ 8" using uint_bounded [of w] by simp
    then show ?thesis by simp
  qed
  show ?thesis
    using b [of "bs ! i"] b [of "bs ! (i + 1)"] b [of "bs ! (i + 2)"] b [of "bs ! (i + 3)"]
    by (simp add: be_u32_at_def)
qed

section \<open>Facts about the size computation\<close>

lemma round_out_eq:
  "(if n mod 8 \<noteq> 0 then n + (8 - n mod 8) else n) = round_up_8 (n::int)"
  unfolding round_up_8_def by presburger

lemma round_up_8_props: "8 dvd round_up_8 n" "n \<le> round_up_8 n" "round_up_8 n < n + 8"
  unfolding round_up_8_def by presburger+

lemma round_up_8_multiple: "8 dvd n \<Longrightarrow> round_up_8 n = n"
  unfolding round_up_8_def by presburger

text \<open>The body of the function with the relative seek and the alignment step evaluated.\<close>

lemma get_header_struct_size_unfold:
  "get_header_struct_size f =
     (let f1 = f\<lparr>pos := pos f + 8\<rparr>; f2 = snd (read 4 f1); f3 = snd (read 4 f2) in
      case unpack_be_u32 (fst (read 4 f1)) of
        Inl e \<Rightarrow> (Inl e, f2)
      | Inr i \<Rightarrow>
         (case unpack_be_u32 (fst (read 4 f2)) of
            Inl e \<Rightarrow> (Inl e, f3)
          | Inr s \<Rightarrow> (Inr (round_up_8 (16 + i * 16 + s)), f3)))"
  unfolding get_header_struct_size_def seek_cur_8
  by (simp add: round_out_eq Let_def split_beta split: sum.splits)

text \<open>With 16 bytes at the cursor the call returns, and leaves the cursor 16 bytes on.\<close>

lemma get_header_struct_size_ok:
  assumes "pos f + 16 \<le> length (contents f)"
  shows "get_header_struct_size f =
           (Inr (round_up_8 (raw_size f (pos f))), f\<lparr>pos := pos f + 16\<rparr>)"
proof -
  let ?f1 = "f\<lparr>pos := pos f + 8\<rparr>"
  let ?f2 = "f\<lparr>pos := pos f + 12\<rparr>"
  have u1: "unpack_be_u32 (fst (read 4 ?f1)) = Inr (index_count f (pos f))"
    and s1: "snd (read 4 ?f1) = ?f2"
    using assms read_unpack_be_u32 [of ?f1] by (simp_all add: index_count_def)
  have u2: "unpack_be_u32 (fst (read 4 ?f2)) = Inr (store_bytes f (pos f))"
    and s2: "snd (read 4 ?f2) = f\<lparr>pos := pos f + 16\<rparr>"
    using assms read_unpack_be_u32 [of ?f2] by (simp_all add: store_bytes_def)
  show ?thesis
    by (simp add: get_header_struct_size_unfold Let_def u1 s1 u2 s2 raw_size_def mult.commute)
qed

text \<open>With fewer than 16 bytes at the cursor one of the two reads comes back short.\<close>

lemma get_header_struct_size_short:
  assumes "\<not> pos f + 16 \<le> length (contents f)"
  shows "fst (get_header_struct_size f) = Inl StructError"
proof (cases "pos f + 12 \<le> length (contents f)")
  case True
  let ?f1 = "f\<lparr>pos := pos f + 8\<rparr>"
  let ?f2 = "f\<lparr>pos := pos f + 12\<rparr>"
  have u1: "unpack_be_u32 (fst (read 4 ?f1)) = Inr (index_count f (pos f))"
    and s1: "snd (read 4 ?f1) = ?f2"
    using True read_unpack_be_u32 [of ?f1] by (simp_all add: index_count_def)
  have "length (fst (read 4 ?f2)) \<noteq> 4"
    using assms read_4_short [of ?f2] by simp
  then have u2: "unpack_be_u32 (fst (read 4 ?f2)) = Inl StructError"
    by (simp add: unpack_be_u32_def)
  show ?thesis by (simp add: get_header_struct_size_unfold Let_def u1 s1 u2)
next
  case False
  let ?f1 = "f\<lparr>pos := pos f + 8\<rparr>"
  have "length (fst (read 4 ?f1)) \<noteq> 4"
    using False read_4_short [of ?f1] by simp
  then have u1: "unpack_be_u32 (fst (read 4 ?f1)) = Inl StructError"
    by (simp add: unpack_be_u32_def)
  show ?thesis by (simp add: get_header_struct_size_unfold Let_def u1)
qed

lemma get_header_struct_size_returns_iff:
  "(\<exists>n. fst (get_header_struct_size f) = Inr n) \<longleftrightarrow> pos f + 16 \<le> length (contents f)"
  using get_header_struct_size_ok [of f] get_header_struct_size_short [of f]
  by (cases "pos f + 16 \<le> length (contents f)") auto

lemma get_header_struct_size_contents:
  "contents (snd (get_header_struct_size f)) = contents f"
  by (simp add: get_header_struct_size_unfold Let_def read_contents split: sum.splits)

lemma raw_size_bounds: "16 \<le> raw_size f p \<and> raw_size f p \<le> 73014444031"
  using be_u32_at_bounds [of "contents f" "p + 8"] be_u32_at_bounds [of "contents f" "p + 12"]
  by (simp add: raw_size_def index_count_def store_bytes_def)

lemma round_up_8_raw_size_bounds:
  "16 \<le> round_up_8 (raw_size f p) \<and> round_up_8 (raw_size f p) \<le> 73014444032"
  using raw_size_bounds [of f p] unfolding round_up_8_def by presburger

section \<open>Size of a header structure: the claims\<close>

text \<open>
  C1. For every byte source with at least 16 bytes at the cursor, \<open>get_header_struct_size\<close>
  returns \<open>16 + 16 * index_count + store_bytes\<close>, the two counts being the 4-byte big-endian
  unsigned integers that follow the 8 skipped bytes, rounded up to the next multiple of 8: the
  result is a multiple of 8, is not below the unrounded size and exceeds it by less than 8.
\<close>

theorem get_header_struct_size_rounded:
  assumes "pos f + 16 \<le> length (contents f)"
  shows "fst (get_header_struct_size f)
           = Inr (round_up_8 (16 + 16 * index_count f (pos f) + store_bytes f (pos f)))
         \<and> 8 dvd round_up_8 (16 + 16 * index_count f (pos f) + store_bytes f (pos f))
         \<and> 16 + 16 * index_count f (pos f) + store_bytes f (pos f)
             \<le> round_up_8 (16 + 16 * index_count f (pos f) + store_bytes f (pos f))
         \<and> round_up_8 (16 + 16 * index_count f (pos f) + store_bytes f (pos f))
             < 16 + 16 * index_count f (pos f) + store_bytes f (pos f) + 8"
proof -
  let ?raw = "16 + 16 * index_count f (pos f) + store_bytes f (pos f)"
  have "fst (get_header_struct_size f) = Inr (round_up_8 ?raw)"
    using get_header_struct_size_ok [OF assms] by (simp add: raw_size_def)
  moreover have "8 dvd round_up_8 ?raw" "?raw \<le> round_up_8 ?raw" "round_up_8 ?raw < ?raw + 8"
    by (rule round_up_8_props)+
  ultimately show ?thesis by blast
qed

theorem get_header_struct_size_rounded_witness:
  "pos \<lparr>contents = [0, 0, 0, 0, 0, 0, 0, 0, 0, 0, 0, 1, 0, 0, 0, 3], pos = 0\<rparr> + 16
     \<le> length (contents \<lparr>contents = [0, 0, 0, 0, 0, 0, 0, 0, 0, 0, 0, 1, 0, 0, 0, 3], pos = 0\<rparr>)
   \<and> fst (get_header_struct_size \<lparr>contents = [0, 0, 0, 0, 0, 0, 0, 0, 0, 0, 0, 1, 0, 0, 0, 3], pos = 0\<rparr>)
       = Inr 40"
  using get_header_struct_size_rounded
    [of "\<lparr>contents = [0, 0, 0, 0, 0, 0, 0, 0, 0, 0, 0, 1, 0, 0, 0, 3], pos = 0\<rparr>"]
  by (simp add: round_up_8_def index_count_def store_bytes_def be_u32_at_def)

text \<open>
  C8. The specification asks that an input whose counts would make the size overflow a 64-bit
  byte-offset accumulator be rejected and not answered with a size. Read from the side of the
  result: a size that \<open>get_header_struct_size\<close> returns never is an overflowed one. The two
  counts are 32-bit, the arithmetic is on unbounded integers, and every returned size lies
  between 16 and 73014444032, far below \<open>2 ^ 64\<close>; no input is in the class to reject.
\<close>

theorem get_header_struct_size_below_2_64:
  assumes "fst (get_header_struct_size f) = Inr n"
  shows "n = round_up_8 (16 + 16 * index_count f (pos f) + store_bytes f (pos f))
         \<and> 16 \<le> n \<and> n \<le> 73014444032 \<and> n < 2 ^ 64"
proof -
  have ok: "pos f + 16 \<le> length (contents f)"
    using assms get_header_struct_size_returns_iff [of f] by blast
  have n: "n = round_up_8 (raw_size f (pos f))"
    using assms get_header_struct_size_ok [OF ok] by simp
  show ?thesis
    using n round_up_8_raw_size_bounds [of f "pos f"] by (simp add: raw_size_def)
qed

theorem get_header_struct_size_below_2_64_witness:
  "fst (get_header_struct_size
      \<lparr>contents = [0, 0, 0, 0, 0, 0, 0, 0, 255, 255, 255, 255, 255, 255, 255, 255], pos = 0\<rparr>)
     = Inr 73014444032
   \<and> (73014444032 :: int) < 2 ^ 64"
proof -
  let ?f = "\<lparr>contents = [0, 0, 0, 0, 0, 0, 0, 0, 255, 255, 255, 255, 255, 255, 255, 255 :: byte],
             pos = 0\<rparr>"
  have r: "fst (get_header_struct_size ?f) = Inr 73014444032"
    using get_header_struct_size_ok [of ?f]
    by (simp add: round_up_8_def raw_size_def index_count_def store_bytes_def be_u32_at_def)
  show ?thesis
    using get_header_struct_size_below_2_64 [OF r] r by simp
qed

text \<open>
  C9, as the specification words it: the call moves the cursor by 12 bytes. It does not: on
  a source of 16 bytes read from the start, the cursor ends at 16.
\<close>

theorem cursor_advance_12_counterexample:
  "pos (snd (get_header_struct_size
        \<lparr>contents = [0, 0, 0, 0, 0, 0, 0, 0, 0, 0, 0, 1, 0, 0, 0, 3], pos = 0\<rparr>))
     \<noteq> pos \<lparr>contents = [0, 0, 0, 0, 0, 0, 0, 0, 0, 0, 0, 1, 0, 0, 0, 3 :: byte], pos = 0\<rparr> + 12"
  using get_header_struct_size_ok
    [of "\<lparr>contents = [0, 0, 0, 0, 0, 0, 0, 0, 0, 0, 0, 1, 0, 0, 0, 3], pos = 0\<rparr>"]
  by simp

text \<open>
  C9, amended. No call changes the bytes of the source, and a call on a source with at least 16
  bytes at the cursor (a call that returns a size) leaves the source as it was but for the
  cursor, which stands exactly 16 bytes further: the 8 skipped bytes and the two 4-byte fields.
\<close>

theorem get_header_struct_size_frame:
  "contents (snd (get_header_struct_size f)) = contents f
   \<and> (pos f + 16 \<le> length (contents f) \<longrightarrow>
        snd (get_header_struct_size f) = f\<lparr>pos := pos f + 16\<rparr>)"
  using get_header_struct_size_ok [of f] get_header_struct_size_contents [of f] by simp

theorem get_header_struct_size_frame_witness:
  "pos \<lparr>contents = [9, 9, 0, 0, 0, 0, 0, 0, 0, 0, 0, 0, 0, 1, 0, 0, 0, 3, 9], pos = 2\<rparr> + 16
     \<le> length (contents \<lparr>contents = [9, 9, 0, 0, 0, 0, 0, 0, 0, 0, 0, 0, 0, 1, 0, 0, 0, 3, 9], pos = 2\<rparr>)
   \<and> snd (get_header_struct_size
        \<lparr>contents = [9, 9, 0, 0, 0, 0, 0, 0, 0, 0, 0, 0, 0, 1, 0, 0, 0, 3, 9], pos = 2\<rparr>)
       = \<lparr>contents = [9, 9, 0, 0, 0, 0, 0, 0, 0, 0, 0, 0, 0, 1, 0, 0, 0, 3, 9], pos = 18\<rparr>"
  using get_header_struct_size_frame
    [of "\<lparr>contents = [9, 9, 0, 0, 0, 0, 0, 0, 0, 0, 0, 0, 0, 1, 0, 0, 0, 3, 9], pos = 2\<rparr>"]
  by simp

section \<open>Byte range of the main header: the claim\<close>

text \<open>
  C2. For every byte source, \<open>get_header_byte_range\<close> takes the signature header to start at
  byte 96 with the size \<open>sig_size\<close> that the size computation gives at 96, and returns the
  main header as the pair \<open>(96 + sig_size, 96 + sig_size + header_size)\<close>, where
  \<open>header_size\<close> is what the size computation gives at \<open>96 + sig_size\<close>: the signature
  region starts at 96 and the main header starts where the signature region ends. A size
  computation that raises (a source too short) makes the whole call raise the same.
\<close>

theorem get_header_byte_range_locate:
  "fst (get_header_byte_range f) =
     (case compute_size f 96 of
        Inl e \<Rightarrow> Inl e
      | Inr sig_size \<Rightarrow>
          (case compute_size f (nat (96 + sig_size)) of
             Inl e \<Rightarrow> Inl e
           | Inr header_size \<Rightarrow> Inr (96 + sig_size, 96 + sig_size + header_size)))"
proof (cases "112 \<le> length (contents f)")
  case False
  then have "fst (get_header_struct_size (f\<lparr>pos := 96\<rparr>)) = Inl StructError"
    using get_header_struct_size_short [of "f\<lparr>pos := 96\<rparr>"] by simp
  then show ?thesis
    by (simp add: get_header_byte_range_def compute_size_def seek_set_nonneg split_beta split: prod.splits sum.splits)
next
  case True
  let ?s = "round_up_8 (raw_size (f\<lparr>pos := 96\<rparr>) 96)"
  have first: "get_header_struct_size (f\<lparr>pos := 96\<rparr>) = (Inr ?s, f\<lparr>pos := 112\<rparr>)"
    using True get_header_struct_size_ok [of "f\<lparr>pos := 96\<rparr>"] by simp
  have "0 \<le> 96 + ?s"
    using round_up_8_raw_size_bounds [of "f\<lparr>pos := 96\<rparr>" 96] by simp
  then have second: "seek (96 + ?s) 0 (f\<lparr>pos := 112\<rparr>) = (Inr (), f\<lparr>pos := nat (96 + ?s)\<rparr>)"
    by (simp add: seek_set_nonneg)
  show ?thesis
    by (simp add: get_header_byte_range_def compute_size_def seek_set_nonneg first second split_beta Let_def
        split: prod.splits sum.splits)
qed

text \<open>
  A source laid out as a package: a lead of 96 bytes, a signature header with 1 index entry
  and 3 bytes of store (35 bytes, 40 with padding), and a main header with 2 index entries
  and 9 bytes of store (57 bytes, 64 with padding). The main header is found at 136 to 200,
  wherever the cursor stood before.
\<close>

lemma get_header_byte_range_example:
  "fst (get_header_byte_range
     \<lparr>contents = replicate 96 0 @ [0, 0, 0, 0, 0, 0, 0, 0, 0, 0, 0, 1, 0, 0, 0, 3]
                   @ replicate 24 7 @ [0, 0, 0, 0, 0, 0, 0, 0, 0, 0, 0, 2, 0, 0, 0, 9]
                   @ replicate 48 7,
      pos = 5\<rparr>) = Inr (136, 200)"
  by code_simp

section \<open>Facts about the hexadecimal rendering\<close>

lemma hex_digit_0: "hex_digit 0 = CHR ''0''"
  by (simp add: hex_digit_def)

lemma hex_digit_lowercase: "d < 16 \<Longrightarrow> hex_digit d \<in> set ''0123456789abcdef''"
  unfolding hex_digit_def by (rule nth_mem) simp

text \<open>An integer from 0 to 255 under \<^verbatim>\<open>%02x\<close>: its two hexadecimal digits.\<close>

lemma format_02x_byte: "format_02x (uint (b :: byte)) = [hex_digit (unat b div 16), hex_digit (unat b mod 16)]"
proof -
  have lt: "unat b < 256" using unsigned_less [of b, where ?'a = nat] by simp
  have n: "nat (uint b) = unat b" by simp
  have nonneg: "\<not> uint b < 0" by simp
  show ?thesis
  proof (cases "unat b < 16")
    case True
    then have "to_hex (unat b) = [hex_digit (unat b)]"
      by (simp add: to_hex.simps [of "unat b"])
    then show ?thesis
      using True by (simp add: format_02x_def Let_def n hex_digit_0 del: nat_uint_eq)
  next
    case False
    then have q: "unat b div 16 < 16" using lt by simp
    have "to_hex (unat b) = to_hex (unat b div 16) @ [hex_digit (unat b mod 16)]"
      using False by (simp add: to_hex.simps [of "unat b"])
    also have "to_hex (unat b div 16) = [hex_digit (unat b div 16)]"
      using q by (simp add: to_hex.simps [of "unat b div 16"])
    finally show ?thesis
      by (simp add: format_02x_def Let_def n del: nat_uint_eq)
  qed
qed

lemma concat_format_02x: "concat (map format_02x (map uint bs)) = spec_hex bs"
  by (induction bs) (simp_all add: spec_hex_def format_02x_byte)

lemma spec_hex_length: "length (spec_hex bs) = 2 * length bs"
  by (induction bs) (simp_all add: spec_hex_def)

lemma spec_hex_lowercase: "set (spec_hex bs) \<subseteq> set ''0123456789abcdef''"
proof (induction bs)
  case Nil
  show ?case by (simp add: spec_hex_def)
next
  case (Cons b bs)
  have lt: "unat b < 256" using unsigned_less [of b, where ?'a = nat] by simp
  then have "unat b div 16 < 16" by simp
  then have hi: "hex_digit (unat b div 16) \<in> set ''0123456789abcdef''"
    by (rule hex_digit_lowercase)
  have lo: "hex_digit (unat b mod 16) \<in> set ''0123456789abcdef''"
    by (rule hex_digit_lowercase) simp
  have "spec_hex (b # bs) = [hex_digit (unat b div 16), hex_digit (unat b mod 16)] @ spec_hex bs"
    by (simp add: spec_hex_def)
  then show ?case using hi lo Cons.IH by auto
qed

section \<open>Facts about signature extraction\<close>

text \<open>A slice that lies inside the sequence, element by element.\<close>

lemma take_drop_nth: "b \<le> length xs \<Longrightarrow> take (b - a) (drop a xs) = map (\<lambda>i. xs ! i) [a ..< b]"
  by (rule nth_equalityI) auto

text \<open>The key id that the source computes from a slice of a byte string.\<close>

lemma key_id_of_slice:
  assumes "b \<le> length bs"
  shows "(case py_slice a b (PyBytes bs) of
            Inl e \<Rightarrow> Inl e
          | Inr key_id_slice \<Rightarrow>
              (case py_len key_id_slice of
                 Inl e \<Rightarrow> Inl e
               | Inr key_id_len \<Rightarrow>
                   (case struct_unpack_B key_id_len key_id_slice of
                      Inl e \<Rightarrow> Inl e
                    | Inr t \<Rightarrow> format_02x_times key_id_len t)))
         = Inr (spec_hex (map (\<lambda>i. bs ! i) [a ..< b]))"
proof -
  have "concat (map format_02x (map uint (take (b - a) (drop a bs))))
          = spec_hex (take (b - a) (drop a bs))"
    by (rule concat_format_02x)
  then show ?thesis
    using assms by (simp add: format_02x_times_def take_drop_nth del: map_map)
qed

text \<open>One iteration of the loop on a raw value adds the record the specification describes.\<close>

lemma extract_signature_raw:
  assumes "raw_value (h ht)"
  shows "extract_signature h ht kind sigs = Inr (sigs @ spec_record kind (h ht))"
proof (cases "h ht")
  case PyNone
  then show ?thesis by (simp add: extract_signature_def spec_record_def)
next
  case (PyInt n)
  then show ?thesis using assms by simp
next
  case (PyStr s)
  then show ?thesis using assms by simp
next
  case (PyBytes bs)
  show ?thesis
  proof (cases "length bs < 17")
    case True
    then show ?thesis using PyBytes
      by (auto simp add: extract_signature_def spec_record_def Let_def)
  next
    case False
    then have ne: "bs \<noteq> []" by auto
    consider (a) "length bs \<le> 65" | (b) "65 < length bs" "length bs \<le> 72"
      | (c) "72 < length bs" "length bs \<le> 536" | (d) "536 < length bs"
      by linarith
    then show ?thesis
    proof cases
      case a
      have k: "17 \<le> length bs" using False by simp
      show ?thesis
        using PyBytes False ne a key_id_of_slice [OF k, of 9]
        by (simp add: extract_signature_def spec_record_def spec_key_id_range_def Let_def
            split: sum.splits)
    next
      case b
      have k: "26 \<le> length bs" using b by simp
      show ?thesis
        using PyBytes False ne b key_id_of_slice [OF k, of 18]
        by (simp add: extract_signature_def spec_record_def spec_key_id_range_def Let_def
            split: sum.splits)
    next
      case c
      have k: "18 \<le> length bs" using c by simp
      show ?thesis
        using PyBytes False ne c key_id_of_slice [OF k, of 10]
        by (simp add: extract_signature_def spec_record_def spec_key_id_range_def Let_def
            split: sum.splits)
    next
      case d
      have k: "27 \<le> length bs" using d by simp
      show ?thesis
        using PyBytes False ne d key_id_of_slice [OF k, of 19]
        by (simp add: extract_signature_def spec_record_def spec_key_id_range_def Let_def
            split: sum.splits)
    qed
  qed
qed

text \<open>An iteration that does not raise either leaves the list or adds that record.\<close>

lemma extract_signature_Inr:
  assumes "extract_signature h ht kind sigs = Inr sigs'"
  shows "sigs' = sigs \<or> (\<exists>bs. h ht = PyBytes bs \<and> sigs' = sigs @ spec_record kind (h ht))"
proof (cases "h ht")
  case PyNone
  then show ?thesis using assms by (simp add: extract_signature_def)
next
  case (PyInt n)
  then show ?thesis using assms by (simp add: extract_signature_def Let_def split: if_splits)
next
  case (PyStr s)
  then show ?thesis using assms
    by (simp add: extract_signature_def Let_def split: if_splits)
next
  case (PyBytes bs)
  then have "raw_value (h ht)" by simp
  then show ?thesis using assms PyBytes extract_signature_raw [of h ht kind sigs] by simp
qed

text \<open>The whole loop on a header whose four signature tags hold raw values.\<close>

lemma extract_loop_raw:
  assumes "raw_value (h RPMTAG_DSAHEADER)" and "raw_value (h RPMTAG_RSAHEADER)"
    and "raw_value (h RPMTAG_SIGGPG)" and "raw_value (h RPMTAG_SIGPGP)"
  shows "extract_loop h header_tags sigs = Inr (sigs @ spec_signatures h)"
  using assms by (simp add: header_tags_def extract_signature_raw spec_signatures_def)

text \<open>The four slices are 8 bytes long, so the key id of a record has 16 hex digits.\<close>

lemma spec_key_id_range_8: "snd (spec_key_id_range L) - fst (spec_key_id_range L) = 8"
  by (simp add: spec_key_id_range_def)

lemma spec_record_key_id:
  assumes "r \<in> set (spec_record kind v)"
  shows "length (key_id r) = 16 \<and> set (key_id r) \<subseteq> set ''0123456789abcdef''
         \<and> (\<exists>bs. signature r = PyBytes bs \<and> 17 \<le> length bs)"
proof (cases v)
  case (PyBytes bs)
  let ?a = "fst (spec_key_id_range (length bs))" and ?b = "snd (spec_key_id_range (length bs))"
  from assms PyBytes have long: "17 \<le> length bs"
    and r: "r = \<lparr>signature_type = kind, key_id = spec_hex (map (\<lambda>i. bs ! i) [?a ..< ?b]),
                 signature = v\<rparr>"
    by (simp_all add: spec_record_def split: if_splits)
  have "length (key_id r) = 2 * (?b - ?a)"
    by (simp add: r spec_hex_length)
  then have "length (key_id r) = 16"
    by (simp add: spec_key_id_range_8)
  moreover have "set (key_id r) \<subseteq> set ''0123456789abcdef''"
    unfolding r by (simp only: sig_entry.simps spec_hex_lowercase)
  moreover have "\<exists>bs. signature r = PyBytes bs \<and> 17 \<le> length bs"
    using long PyBytes by (simp add: r)
  ultimately show ?thesis by blast
qed (use assms in \<open>simp_all add: spec_record_def\<close>)

lemma extract_loop_key_ids:
  assumes "extract_loop h tags sigs = Inr sigs'"
    and "\<forall>r \<in> set sigs. length (key_id r) = 16 \<and> set (key_id r) \<subseteq> set ''0123456789abcdef''
           \<and> (\<exists>bs. signature r = PyBytes bs \<and> 17 \<le> length bs)"
  shows "\<forall>r \<in> set sigs'. length (key_id r) = 16 \<and> set (key_id r) \<subseteq> set ''0123456789abcdef''
           \<and> (\<exists>bs. signature r = PyBytes bs \<and> 17 \<le> length bs)"
  using assms
proof (induction tags arbitrary: sigs)
  case Nil
  then show ?case by simp
next
  case (Cons p tags)
  obtain ht kind where p: "p = (ht, kind)" by (cases p)
  from Cons.prems(1) p obtain mid where
    one: "extract_signature h ht kind sigs = Inr mid" and rest: "extract_loop h tags mid = Inr sigs'"
    by (auto split: sum.splits)
  from extract_signature_Inr [OF one]
  have "set mid \<subseteq> set sigs \<union> set (spec_record kind (h ht))" by auto
  then have "\<forall>r \<in> set mid. length (key_id r) = 16 \<and> set (key_id r) \<subseteq> set ''0123456789abcdef''
           \<and> (\<exists>bs. signature r = PyBytes bs \<and> 17 \<le> length bs)"
    using Cons.prems(2) spec_record_key_id [of _ kind "h ht"] by blast
  then show ?case using Cons.IH [OF rest] by blast
qed

lemma RPM_Header_init_Inr:
  assumes "RPM_Header_init rpm h is_src = Inr self"
  shows "has_RPMTAG_DSAHEADER rpm" and "hdr self = h"
    and "extract_loop h header_tags [] = Inr (signatures self)"
  using assms
  by (auto simp add: RPM_Header_init_def extract_signatures_def split: if_splits sum.splits)

section \<open>Signature extraction: the claims\<close>

text \<open>
  C3. Where the \<^verbatim>\<open>rpm\<close> module has \<^verbatim>\<open>RPMTAG_DSAHEADER\<close> and the four signature tags of the
  header hold raw values (a byte string each, or \<^verbatim>\<open>None\<close>), constructing the wrapper
  returns, and its signature list is the one the specification describes: for each kind in the
  order dsa, rsa, gpg, pgp, no record for a value that is absent, empty or shorter than 17
  bytes, and else one record whose key id is, in lowercase hexadecimal with two digits a byte,
  the slice that the first matching row of the length table selects: \<open>[9, 17)\<close> up to 65
  bytes, \<open>[18, 26)\<close> up to 72, \<open>[10, 18)\<close> up to 536, \<open>[19, 27)\<close> beyond.
\<close>

theorem extract_signatures_spec:
  assumes "has_RPMTAG_DSAHEADER rpm"
    and "raw_value (h RPMTAG_DSAHEADER)" and "raw_value (h RPMTAG_RSAHEADER)"
    and "raw_value (h RPMTAG_SIGGPG)" and "raw_value (h RPMTAG_SIGPGP)"
  shows "RPM_Header_init rpm h is_src =
           Inr \<lparr>hdr = h, is_source = is_src, packaging = ''rpm'', signatures = spec_signatures h\<rparr>"
proof -
  have "extract_loop h header_tags [] = Inr ([] @ spec_signatures h)"
    using assms(2-5) by (rule extract_loop_raw)
  then show ?thesis
    using assms(1) by (simp add: RPM_Header_init_def extract_signatures_def)
qed

theorem extract_signatures_spec_witness:
  "has_RPMTAG_DSAHEADER \<lparr>has_RPMTAG_DSAHEADER = True\<rparr>
   \<and> raw_value (((\<lambda>t. PyNone)
         (RPMTAG_DSAHEADER := PyBytes [0, 1, 2, 3, 4, 5, 6, 7, 8, 9, 10, 11, 12, 13, 14, 15, 171],
          RPMTAG_SIGPGP := PyBytes [1, 2, 3])) RPMTAG_DSAHEADER)
   \<and> raw_value (((\<lambda>t. PyNone)
         (RPMTAG_DSAHEADER := PyBytes [0, 1, 2, 3, 4, 5, 6, 7, 8, 9, 10, 11, 12, 13, 14, 15, 171],
          RPMTAG_SIGPGP := PyBytes [1, 2, 3])) RPMTAG_RSAHEADER)
   \<and> raw_value (((\<lambda>t. PyNone)
         (RPMTAG_DSAHEADER := PyBytes [0, 1, 2, 3, 4, 5, 6, 7, 8, 9, 10, 11, 12, 13, 14, 15, 171],
          RPMTAG_SIGPGP := PyBytes [1, 2, 3])) RPMTAG_SIGGPG)
   \<and> raw_value (((\<lambda>t. PyNone)
         (RPMTAG_DSAHEADER := PyBytes [0, 1, 2, 3, 4, 5, 6, 7, 8, 9, 10, 11, 12, 13, 14, 15, 171],
          RPMTAG_SIGPGP := PyBytes [1, 2, 3])) RPMTAG_SIGPGP)
   \<and> (case RPM_Header_init \<lparr>has_RPMTAG_DSAHEADER = True\<rparr>
          ((\<lambda>t. PyNone)
            (RPMTAG_DSAHEADER := PyBytes [0, 1, 2, 3, 4, 5, 6, 7, 8, 9, 10, 11, 12, 13, 14, 15, 171],
             RPMTAG_SIGPGP := PyBytes [1, 2, 3])) PyNone of
          Inl e \<Rightarrow> []
        | Inr self \<Rightarrow> signatures self)
       = [\<lparr>signature_type = ''dsa'', key_id = ''090a0b0c0d0e0fab'',
           signature = PyBytes [0, 1, 2, 3, 4, 5, 6, 7, 8, 9, 10, 11, 12, 13, 14, 15, 171]\<rparr>]"
  using extract_signatures_spec
    [of "\<lparr>has_RPMTAG_DSAHEADER = True\<rparr>"
        "(\<lambda>t. PyNone)
          (RPMTAG_DSAHEADER := PyBytes [0, 1, 2, 3, 4, 5, 6, 7, 8, 9, 10, 11, 12, 13, 14, 15, 171],
           RPMTAG_SIGPGP := PyBytes [1, 2, 3])" PyNone]
  by (simp add: spec_signatures_def spec_record_def spec_key_id_range_def spec_hex_def
      hex_digit_def)

text \<open>
  The lengths at which the rows of the table change, on the source's loop: a value of 16
  bytes gives no record, 17 bytes the slice \<open>[9, 17)\<close>, 66 bytes \<open>[18, 26)\<close>, 73 bytes
  \<open>[10, 18)\<close> and 537 bytes \<open>[19, 27)\<close>. Byte \<open>i\<close> of each value is \<open>i mod 256\<close>.
\<close>

lemma extract_loop_boundary_lengths:
  "map_sum id (map (\<lambda>r. (signature_type r, key_id r)))
     (extract_loop ((\<lambda>t. PyNone)
         (RPMTAG_DSAHEADER := PyBytes (map of_nat [0 ..< 17]),
          RPMTAG_RSAHEADER := PyBytes (map of_nat [0 ..< 16]),
          RPMTAG_SIGGPG := PyBytes (map of_nat [0 ..< 66]),
          RPMTAG_SIGPGP := PyBytes (map of_nat [0 ..< 537]))) header_tags [])
     = Inr [(''dsa'', ''090a0b0c0d0e0f10''), (''gpg'', ''1213141516171819''),
            (''pgp'', ''131415161718191a'')]"
  "map_sum id (map (\<lambda>r. (signature_type r, key_id r)))
     (extract_loop ((\<lambda>t. PyNone)
         (RPMTAG_DSAHEADER := PyBytes (map of_nat [0 ..< 65]),
          RPMTAG_RSAHEADER := PyBytes (map of_nat [0 ..< 72]),
          RPMTAG_SIGGPG := PyBytes (map of_nat [0 ..< 73]),
          RPMTAG_SIGPGP := PyBytes (map of_nat [0 ..< 536]))) header_tags [])
     = Inr [(''dsa'', ''090a0b0c0d0e0f10''), (''rsa'', ''1213141516171819''),
            (''gpg'', ''0a0b0c0d0e0f1011''), (''pgp'', ''0a0b0c0d0e0f1011'')]"
  by code_simp+

text \<open>
  C10. Every record in the signature list of a wrapper that was constructed has a key id of
  exactly 16 characters, each a lowercase hexadecimal digit, and comes from a raw value of at
  least 17 bytes (whichever row of the table applied, the slice was 8 bytes long).
\<close>

theorem key_id_16_hex_digits:
  assumes "RPM_Header_init rpm h is_src = Inr self" and "r \<in> set (signatures self)"
  shows "length (key_id r) = 16 \<and> set (key_id r) \<subseteq> set ''0123456789abcdef''
         \<and> (\<exists>bs. signature r = PyBytes bs \<and> 17 \<le> length bs)"
proof -
  have loop: "extract_loop h header_tags [] = Inr (signatures self)"
    using assms(1) by (rule RPM_Header_init_Inr)
  have "\<forall>r \<in> set (signatures self).
          length (key_id r) = 16 \<and> set (key_id r) \<subseteq> set ''0123456789abcdef''
          \<and> (\<exists>bs. signature r = PyBytes bs \<and> 17 \<le> length bs)"
    by (rule extract_loop_key_ids [OF loop]) simp
  then show ?thesis using assms(2) by blast
qed

theorem key_id_16_hex_digits_witness:
  "RPM_Header_init \<lparr>has_RPMTAG_DSAHEADER = True\<rparr>
      ((\<lambda>t. PyNone)(RPMTAG_SIGGPG := PyBytes [0, 1, 2, 3, 4, 5, 6, 7, 8, 250, 206, 10, 11, 12, 13, 14, 15, 16]))
      (PyInt 0)
     = Inr \<lparr>hdr = (\<lambda>t. PyNone)(RPMTAG_SIGGPG := PyBytes [0, 1, 2, 3, 4, 5, 6, 7, 8, 250, 206, 10, 11, 12, 13, 14, 15, 16]),
            is_source = PyInt 0, packaging = ''rpm'',
            signatures = [\<lparr>signature_type = ''gpg'', key_id = ''face0a0b0c0d0e0f'',
                            signature = PyBytes [0, 1, 2, 3, 4, 5, 6, 7, 8, 250, 206, 10, 11, 12, 13, 14, 15, 16]\<rparr>]\<rparr>
   \<and> length ''face0a0b0c0d0e0f'' = 16
   \<and> set ''face0a0b0c0d0e0f'' \<subseteq> set ''0123456789abcdef''"
proof -
  let ?bs = "[0, 1, 2, 3, 4, 5, 6, 7, 8, 250, 206, 10, 11, 12, 13, 14, 15, 16] :: byte list"
  let ?h = "(\<lambda>t. PyNone)(RPMTAG_SIGGPG := PyBytes ?bs)"
  let ?r = "\<lparr>signature_type = ''gpg'', key_id = ''face0a0b0c0d0e0f'', signature = PyBytes ?bs\<rparr>"
  let ?self = "\<lparr>hdr = ?h, is_source = PyInt 0, packaging = ''rpm'', signatures = [?r]\<rparr>"
  have "extract_loop ?h header_tags [] = Inr ([] @ spec_signatures ?h)"
    by (rule extract_loop_raw) simp_all
  then have init: "RPM_Header_init \<lparr>has_RPMTAG_DSAHEADER = True\<rparr> ?h (PyInt 0) = Inr ?self"
    by (simp add: RPM_Header_init_def extract_signatures_def spec_signatures_def spec_record_def
        spec_key_id_range_def spec_hex_def hex_digit_def)
  have mem: "?r \<in> set (signatures ?self)" by simp
  show ?thesis
    using key_id_16_hex_digits [OF init mem] init by simp
qed

section \<open>Signed or not: the claim\<close>

lemma truthy_raw: "raw_value v \<Longrightarrow> truthy v = present_nonempty v"
  by (cases v) simp_all

text \<open>
  C5. For every wrapper that was constructed, over a header whose gpg, pgp and dsa tags
  hold raw values, \<open>is_signed\<close> returns 1 if at least one of the three values is present and
  not empty, and 0 if none is; the rsa value plays no part, so a header with an rsa signature
  alone is not signed. (A wrapper exists only where the \<^verbatim>\<open>rpm\<close> module has
  \<^verbatim>\<open>RPMTAG_DSAHEADER\<close>, which the constructor reads; only then is the dsa value looked at.)
\<close>

theorem is_signed_gpg_pgp_dsa:
  assumes "RPM_Header_init rpm h is_src = Inr self"
    and "raw_value (h RPMTAG_SIGGPG)" and "raw_value (h RPMTAG_SIGPGP)"
    and "raw_value (h RPMTAG_DSAHEADER)"
  shows "is_signed rpm self =
           (if present_nonempty (h RPMTAG_SIGGPG) \<or> present_nonempty (h RPMTAG_SIGPGP)
               \<or> present_nonempty (h RPMTAG_DSAHEADER)
            then 1 else 0)"
proof -
  have rpm: "has_RPMTAG_DSAHEADER rpm" and hdr: "hdr self = h"
    using assms(1) by (rule RPM_Header_init_Inr)+
  show ?thesis
    using assms(2-4) by (simp add: is_signed_def rpm hdr truthy_raw)
qed

theorem is_signed_gpg_pgp_dsa_witness:
  "RPM_Header_init \<lparr>has_RPMTAG_DSAHEADER = True\<rparr>
      ((\<lambda>t. PyNone)(RPMTAG_RSAHEADER := PyBytes [0, 1, 2, 3, 4, 5, 6, 7, 8, 9, 10, 11, 12, 13, 14, 15, 16]))
      PyNone
     = Inr \<lparr>hdr = (\<lambda>t. PyNone)(RPMTAG_RSAHEADER := PyBytes [0, 1, 2, 3, 4, 5, 6, 7, 8, 9, 10, 11, 12, 13, 14, 15, 16]),
            is_source = PyNone, packaging = ''rpm'',
            signatures = [\<lparr>signature_type = ''rsa'', key_id = ''090a0b0c0d0e0f10'',
                            signature = PyBytes [0, 1, 2, 3, 4, 5, 6, 7, 8, 9, 10, 11, 12, 13, 14, 15, 16]\<rparr>]\<rparr>
   \<and> is_signed \<lparr>has_RPMTAG_DSAHEADER = True\<rparr>
        \<lparr>hdr = (\<lambda>t. PyNone)(RPMTAG_RSAHEADER := PyBytes [0, 1, 2, 3, 4, 5, 6, 7, 8, 9, 10, 11, 12, 13, 14, 15, 16]),
         is_source = PyNone, packaging = ''rpm'',
         signatures = [\<lparr>signature_type = ''rsa'', key_id = ''090a0b0c0d0e0f10'',
                         signature = PyBytes [0, 1, 2, 3, 4, 5, 6, 7, 8, 9, 10, 11, 12, 13, 14, 15, 16]\<rparr>]\<rparr>
       = 0"
proof -
  let ?bs = "[0, 1, 2, 3, 4, 5, 6, 7, 8, 9, 10, 11, 12, 13, 14, 15, 16] :: byte list"
  let ?h = "(\<lambda>t. PyNone)(RPMTAG_RSAHEADER := PyBytes ?bs)"
  let ?self = "\<lparr>hdr = ?h, is_source = PyNone, packaging = ''rpm'',
                signatures = [\<lparr>signature_type = ''rsa'', key_id = ''090a0b0c0d0e0f10'',
                                signature = PyBytes ?bs\<rparr>]\<rparr>"
  have "extract_loop ?h header_tags [] = Inr ([] @ spec_signatures ?h)"
    by (rule extract_loop_raw) simp_all
  then have init: "RPM_Header_init \<lparr>has_RPMTAG_DSAHEADER = True\<rparr> ?h PyNone = Inr ?self"
    by (simp add: RPM_Header_init_def extract_signatures_def spec_signatures_def spec_record_def
        spec_key_id_range_def spec_hex_def hex_digit_def)
  have "is_signed \<lparr>has_RPMTAG_DSAHEADER = True\<rparr> ?self = 0"
    using is_signed_gpg_pgp_dsa [OF init] by simp
  then show ?thesis using init by simp
qed

text \<open>A header with a gpg signature is signed.\<close>

lemma is_signed_gpg_example:
  "is_signed \<lparr>has_RPMTAG_DSAHEADER = True\<rparr>
     \<lparr>hdr = (\<lambda>t. PyNone)(RPMTAG_SIGGPG := PyBytes [1, 2, 3]), is_source = PyNone,
      packaging = ''rpm'', signatures = []\<rparr> = 1"
  by (simp add: is_signed_def)

section \<open>Checksum type: the claim\<close>

text \<open>A decoded text is no key of the table, whose keys are integers.\<close>

lemma PGPHASHALGO_no_text: "\<not> dict_contains PGPHASHALGO (PyStr s)"
  by (simp add: dict_contains_def PGPHASHALGO_def)

text \<open>
  On an integer value the accessor returns \<^verbatim>\<open>'md5'\<close> for 0 and raises for every other one:
  an integer has no method \<^verbatim>\<open>decode\<close>.
\<close>

lemma checksum_type_int:
  "hdr self RPMTAG_FILEDIGESTALGO = PyInt n \<Longrightarrow>
   checksum_type utf8 self = (if n = 0 then Inr ''md5'' else Inl AttributeError)"
  by (simp add: checksum_type_def)

lemma checksum_type_absent:
  "hdr self RPMTAG_FILEDIGESTALGO = PyNone \<Longrightarrow> checksum_type utf8 self = Inr ''md5''"
  by (simp add: checksum_type_def)

text \<open>Whatever the header holds, the accessor returns no other name than \<^verbatim>\<open>'md5'\<close>.\<close>

lemma checksum_type_only_md5:
  assumes "checksum_type utf8 self = Inr a"
  shows "a = ''md5''"
proof (cases "hdr self RPMTAG_FILEDIGESTALGO")
  case PyNone
  then show ?thesis using assms by (simp add: checksum_type_def)
next
  case (PyInt n)
  then show ?thesis using assms by (simp add: checksum_type_def split: if_splits)
next
  case (PyBytes bs)
  then show ?thesis using assms
    by (auto simp add: checksum_type_def PGPHASHALGO_no_text split: if_splits sum.splits)
next
  case (PyStr s)
  then show ?thesis using assms by (simp add: checksum_type_def split: if_splits)
qed

text \<open>The table itself maps 8 to \<^verbatim>\<open>'sha256'\<close>.\<close>

lemma PGPHASHALGO_8: "dict_getitem PGPHASHALGO (PyInt 8) = Inr ''sha256''"
  by (simp add: dict_getitem_def PGPHASHALGO_def)

text \<open>
  C4. The claim is that the accessor maps the integer value of the file digest algorithm tag
  through the table, so that 8 gives \<^verbatim>\<open>'sha256'\<close>. The code does not do it: on a header whose tag
  holds the integer 8 the call \<^verbatim>\<open>.decode('utf-8')\<close> on that integer raises \<^verbatim>\<open>AttributeError\<close>,
  whichever UTF-8 decoder the runtime has.
\<close>

theorem checksum_type_8_raises:
  "checksum_type utf8
     \<lparr>hdr = (\<lambda>t. PyNone)(RPMTAG_FILEDIGESTALGO := PyInt 8), is_source = PyNone,
      packaging = ''rpm'', signatures = []\<rparr>
   = Inl AttributeError"
  by (simp add: checksum_type_def)

section \<open>Comparing name, version, release and epoch: the claims\<close>

text \<open>Under Python 3 a comparison of two tuples of one name raises.\<close>

lemma nvre_compare_python3:
  "fst t1 = fst t2 \<Longrightarrow> nvre_compare Python3 labelCompare t1 t2 = Inl TypeError"
  by (simp add: nvre_compare_def build_evr_def split: prod.splits)

text \<open>
  Under Python 2, where the three fields of each tuple are byte strings, integers or
  \<^verbatim>\<open>None\<close>, the comparison of two tuples of one name is the call of \<^verbatim>\<open>rpm.labelCompare\<close>.
\<close>

lemma build_evr_python2:
  assumes "\<forall>s. version \<noteq> PyStr s" and "\<forall>s. release \<noteq> PyStr s" and "\<forall>s. epoch \<noteq> PyStr s"
  shows "\<exists>e v r. build_evr Python2 (name, version, release, epoch) = Inr [e, Some v, Some r]"
proof -
  have ok: "\<exists>b. py2_str x = Inr b" if "\<forall>s. x \<noteq> PyStr s" for x
    using that by (cases x) simp_all
  from ok [OF assms(1)] ok [OF assms(2)] ok [OF assms(3)] show ?thesis
    by (auto simp add: build_evr_def)
qed

lemma nvre_compare_python2:
  assumes "fst t1 = fst t2" and "build_evr Python2 t1 = Inr evr1" and "build_evr Python2 t2 = Inr evr2"
  shows "nvre_compare Python2 labelCompare t1 t2 = labelCompare evr1 evr2"
  using assms by (simp add: nvre_compare_def)

text \<open>
  C6. The claim is that the comparison of two tuples of one name completes and returns an
  ordering. Under Python 3 it raises instead: \<^verbatim>\<open>build_evr\<close> subscripts the iterator that
  \<^verbatim>\<open>map(str, evr)\<close> returns. The input is \<^verbatim>\<open>('foo', '1.0', '1', '')\<close> against
  \<^verbatim>\<open>('foo', '1.0', '2', '')\<close>, the strings given by their code points, and the result is the
  same for every \<^verbatim>\<open>rpm.labelCompare\<close>, which is never called.
\<close>

theorem nvre_compare_same_name_raises:
  "nvre_compare Python3 labelCompare
     (''foo'', PyStr [49, 46, 48], PyStr [49], PyStr [])
     (''foo'', PyStr [49, 46, 48], PyStr [50], PyStr [])
   = Inl TypeError"
  by (simp add: nvre_compare_def build_evr_def)

text \<open>
  C7. For every pair of tuples whose names differ the comparison raises the name-mismatch
  error (in the source a \<^verbatim>\<open>ValueError\<close>), under either Python version and whatever
  \<^verbatim>\<open>rpm.labelCompare\<close> would do and whatever the other fields hold: the names are tested
  first and nothing else is evaluated.
\<close>

theorem nvre_compare_name_mismatch:
  assumes "fst t1 \<noteq> fst t2"
  shows "nvre_compare ver labelCompare t1 t2 = Inl ValueError"
  using assms by (simp add: nvre_compare_def)

theorem nvre_compare_name_mismatch_witness:
  "fst (''foo'', PyBytes [49, 46, 48], PyBytes [49], PyBytes [])
     \<noteq> fst (''bar'', PyBytes [49, 46, 48], PyBytes [49], PyBytes [])
   \<and> nvre_compare Python2 (\<lambda>evr1 evr2. Inr 0)
        (''foo'', PyBytes [49, 46, 48], PyBytes [49], PyBytes [])
        (''bar'', PyBytes [49, 46, 48], PyBytes [49], PyBytes [])
      = Inl ValueError
   \<and> nvre_compare Python3 (\<lambda>evr1 evr2. Inl TypeError)
        (''foo'', PyStr [49, 46, 48], PyStr [49], PyStr [])
        (''bar'', PyStr [49, 46, 48], PyStr [49], PyStr [])
      = Inl ValueError"
proof -
  let ?a2 = "(''foo'', PyBytes [49, 46, 48], PyBytes [49], PyBytes []) :: nvre"
  let ?b2 = "(''bar'', PyBytes [49, 46, 48], PyBytes [49], PyBytes []) :: nvre"
  let ?a3 = "(''foo'', PyStr [49, 46, 48], PyStr [49], PyStr []) :: nvre"
  let ?b3 = "(''bar'', PyStr [49, 46, 48], PyStr [49], PyStr []) :: nvre"
  have ne2: "fst ?a2 \<noteq> fst ?b2" and ne3: "fst ?a3 \<noteq> fst ?b3"
    by simp_all
  show ?thesis
    using ne2 nvre_compare_name_mismatch [OF ne2, of Python2 "\<lambda>evr1 evr2. Inr 0"]
      nvre_compare_name_mismatch [OF ne3, of Python3 "\<lambda>evr1 evr2. Inl TypeError"]
    by simp
qed

end
